theory Spec2Isabelle
  imports Main "HOL-Library.Char_ord" "HOL-Library.List_Lexorder"
begin

section \<open>Data model of ffmpeg/nodes.py\<close>

text \<open>
  Labels, selectors, slice bounds and filter parameters are Python atoms: \<open>None\<close>, an
  integer or a string.
\<close>

datatype pyatom = PyNone | PyInt int | PyStr string

text \<open>The two stream classes the module instantiates, and its six concrete node classes.\<close>

datatype stream_class = FilterableStream | OutputStream

datatype node_class =
  InputNode | FilterNode | SourceNode | OutputNode | MergeOutputsNode | GlobalNode

text \<open>
  A node object. The first six fields are the ones the repr substrate
  (\<open>KwargReprNode\<close>) keeps; the last four are the private fields set by
  \<open>Node.__init__\<close>. The incoming edge map is an ordered dictionary from a downstream
  label to the triple (upstream node, upstream label, upstream selector).
  \<open>node_hash\<close> is the hash the substrate computes once, when the object is
  constructed, and returns from \<open>__hash__\<close> ever after: it belongs to the object and
  stays as it is when the edge map is mutated later.
\<close>

datatype node = MkNode
  (node_cls: node_class)
  (name: string)
  (args: "pyatom list")
  (kwargs: "(string \<times> pyatom) list")
  (incoming_edge_map: "(pyatom \<times> node \<times> pyatom \<times> pyatom) list")
  (node_hash: int)
  (outgoing_stream_type: stream_class)
  (incoming_stream_types: "stream_class list")
  (min_inputs: "int option")
  (max_inputs: "int option")

text \<open>
  A stream object refers to its upstream node object. The \<open>node\<close> field is that
  object as it is when the stream is used; what the stream's identity reads from it,
  \<open>node_hash\<close>, is the same in every state of the object.
\<close>

record stream =
  cls :: stream_class
  node :: node
  label :: pyatom
  selector :: pyatom

text \<open>
  The values a caller can pass as a stream specification, or store as a value of a
  stream map: \<open>None\<close>, a stream, a list, a tuple, a dict, or something else
  (an integer, a string).
\<close>

datatype pyval =
  VNone
  | VStream stream
  | VList "pyval list"
  | VTuple "pyval list"
  | VDict "(pyatom \<times> pyval) list"
  | VInt int
  | VStr string

text \<open>
  Exceptions. \<open>TypeError\<close> is the spec's TypeMismatch; \<open>ValueError\<close> is its ArityError
  (the two bound messages) and its InvalidUsage (the syntax message).
  \<open>UnboundLocalError\<close> and \<open>AttributeError\<close> are raised by the interpreter.
\<close>

datatype type_error_site = Upstream_node | Incoming_stream

datatype value_error_site = At_least int int | At_most int int | Invalid_syntax

datatype error =
  TypeError type_error_site
  | ValueError value_error_site
  | UnboundLocalError
  | AttributeError

text \<open>The argument of an indexing operation \<open>x[item]\<close>: a slice \<open>start:stop:step\<close> or a plain index.\<close>

datatype item = Slice pyatom pyatom pyatom | Index pyatom

section \<open>Ordered dictionaries\<close>

text \<open>
  A Python dict is an association list in insertion order with distinct keys.
  \<open>d[k] = v\<close> overwrites in place or appends; \<open>pop\<close> removes the key;
  \<open>update\<close> stores the entries of the other dict in its order.
\<close>

fun dict_set :: "('k \<times> 'v) list \<Rightarrow> 'k \<Rightarrow> 'v \<Rightarrow> ('k \<times> 'v) list" where
  "dict_set [] k v = [(k, v)]"
| "dict_set ((k', v') # m) k v = (if k' = k then (k, v) # m else (k', v') # dict_set m k v)"

definition dict_pop :: "('k \<times> 'v) list \<Rightarrow> 'k \<Rightarrow> ('k \<times> 'v) list" where
  "dict_pop m k = filter (\<lambda>kv. fst kv \<noteq> k) m"

definition dict_update :: "('k \<times> 'v) list \<Rightarrow> ('k \<times> 'v) list \<Rightarrow> ('k \<times> 'v) list" where
  "dict_update m m2 = fold (\<lambda>kv acc. dict_set acc (fst kv) (snd kv)) m2 m"

definition dict_values :: "('k \<times> 'v) list \<Rightarrow> 'v list" where
  "dict_values m = map snd m"

definition dict_keys :: "('k \<times> 'v) list \<Rightarrow> 'k list" where
  "dict_keys m = map fst m"

text \<open>\<open>dict(enumerate(xs))\<close>: the positions \<open>0, 1, ...\<close> as keys.\<close>

definition py_enumerate :: "'v list \<Rightarrow> (pyatom \<times> 'v) list" where
  "py_enumerate xs = map (\<lambda>iv. (PyInt (int (fst iv)), snd iv)) (enumerate 0 xs)"

section \<open>Streams\<close>

text \<open>\<open>_is_of_types\<close>: the loop over the types, leaving at the first match.\<close>

fun is_of_types :: "('o \<Rightarrow> 't \<Rightarrow> bool) \<Rightarrow> 'o \<Rightarrow> 't list \<Rightarrow> bool" where
  "is_of_types isinst obj [] = False"
| "is_of_types isinst obj (t # ts) = (if isinst obj t then True else is_of_types isinst obj ts)"

definition isinstance_node :: "node \<Rightarrow> node_class \<Rightarrow> bool" where
  "isinstance_node n c = (node_cls n = c)"

definition isinstance_stream :: "pyval \<Rightarrow> stream_class \<Rightarrow> bool" where
  "isinstance_stream v c = (case v of VStream s \<Rightarrow> cls s = c | _ \<Rightarrow> False)"

text \<open>\<open>Stream.__init__\<close>, for an object of class \<open>c\<close>.\<close>

definition Stream_init ::
  "stream_class \<Rightarrow> node \<Rightarrow> pyatom \<Rightarrow> node_class list \<Rightarrow> pyatom \<Rightarrow> error + stream" where
  "Stream_init c upstream_node upstream_label node_types upstream_selector =
     (if \<not> is_of_types isinstance_node upstream_node node_types
      then Inl (TypeError Upstream_node)
      else Inr \<lparr>cls = c, node = upstream_node, label = upstream_label,
                selector = upstream_selector\<rparr>)"

definition FilterableStream_init :: "node \<Rightarrow> pyatom \<Rightarrow> pyatom \<Rightarrow> error + stream" where
  "FilterableStream_init upstream_node upstream_label upstream_selector =
     Stream_init FilterableStream upstream_node upstream_label
       [InputNode, FilterNode, SourceNode] upstream_selector"

definition OutputStream_init :: "node \<Rightarrow> pyatom \<Rightarrow> pyatom \<Rightarrow> error + stream" where
  "OutputStream_init upstream_node upstream_label upstream_selector =
     Stream_init OutputStream upstream_node upstream_label
       [OutputNode, GlobalNode, MergeOutputsNode] upstream_selector"

text \<open>\<open>Node.stream(label, select)\<close>: calls the node's outgoing stream class.\<close>

definition Node_stream :: "node \<Rightarrow> pyatom \<Rightarrow> pyatom \<Rightarrow> error + stream" where
  "Node_stream self lbl select =
     (case outgoing_stream_type self of
        FilterableStream \<Rightarrow> FilterableStream_init self lbl select
      | OutputStream \<Rightarrow> OutputStream_init self lbl select)"

text \<open>\<open>Node.__getitem__\<close>.\<close>

definition Node_getitem :: "node \<Rightarrow> item \<Rightarrow> error + stream" where
  "Node_getitem self it =
     (case it of
        Slice start stop step \<Rightarrow> Node_stream self start stop
      | Index i \<Rightarrow> Node_stream self i PyNone)"

text \<open>\<open>Stream.__getitem__\<close>: \<open>self.node.stream(select=item.stop)\<close>, the label defaulting to \<open>None\<close>.\<close>

definition Stream_getitem :: "stream \<Rightarrow> item \<Rightarrow> error + stream" where
  "Stream_getitem self it =
     (case it of
        Index i \<Rightarrow> Inl (ValueError Invalid_syntax)
      | Slice start stop step \<Rightarrow>
          if start \<noteq> PyNone then Inl (ValueError Invalid_syntax)
          else Node_stream (node self) PyNone stop)"

section \<open>Stream maps\<close>

text \<open>
  \<open>get_stream_map\<close>: the four branches of the \<open>if\<close>/\<open>elif\<close> chain in their order; for
  any other value no branch assigns \<open>stream_map\<close> and the \<open>return\<close> raises
  \<open>UnboundLocalError\<close>.
\<close>

fun get_stream_map :: "pyval \<Rightarrow> error + (pyatom \<times> pyval) list" where
  "get_stream_map VNone = Inr []"
| "get_stream_map (VStream s) = Inr [(PyNone, VStream s)]"
| "get_stream_map (VList xs) = Inr (py_enumerate xs)"
| "get_stream_map (VTuple xs) = Inr (py_enumerate xs)"
| "get_stream_map (VDict m) = Inr m"
| "get_stream_map _ = Inl UnboundLocalError"

text \<open>The four accepted shapes of a stream specification.\<close>

fun accepted_shape :: "pyval \<Rightarrow> bool" where
  "accepted_shape VNone = True"
| "accepted_shape (VStream s) = True"
| "accepted_shape (VList xs) = True"
| "accepted_shape (VTuple xs) = True"
| "accepted_shape (VDict m) = True"
| "accepted_shape _ = False"

section \<open>Nodes\<close>

text \<open>
  \<open>Node.__check_input_len\<close>, \<open>Node.__check_input_types\<close>: \<open>None\<close> when the check
  returns, \<open>Some e\<close> when it raises. \<open>len\<close> of a dict is the number of its entries.
\<close>

definition check_input_len ::
  "(pyatom \<times> 'v) list \<Rightarrow> int option \<Rightarrow> int option \<Rightarrow> error option" where
  "check_input_len stream_map mn mx =
     (if mn \<noteq> None \<and> int (length stream_map) < the mn
      then Some (ValueError (At_least (the mn) (int (length stream_map))))
      else if mx \<noteq> None \<and> int (length stream_map) > the mx
      then Some (ValueError (At_most (the mx) (int (length stream_map))))
      else None)"

fun check_input_types :: "(pyatom \<times> pyval) list \<Rightarrow> stream_class list \<Rightarrow> error option" where
  "check_input_types [] types = None"
| "check_input_types ((k, strm) # rest) types =
     (if \<not> is_of_types isinstance_stream strm types
      then Some (TypeError Incoming_stream)
      else check_input_types rest types)"

text \<open>
  \<open>Node.__get_incoming_edge_map\<close>: the loop storing one triple per item into a fresh
  ordered dict. Reading \<open>.node\<close> of a value that is no stream raises \<open>AttributeError\<close>.
\<close>

fun get_incoming_edge_map_loop ::
  "(pyatom \<times> node \<times> pyatom \<times> pyatom) list \<Rightarrow> (pyatom \<times> pyval) list
   \<Rightarrow> error + (pyatom \<times> node \<times> pyatom \<times> pyatom) list" where
  "get_incoming_edge_map_loop acc [] = Inr acc"
| "get_incoming_edge_map_loop acc ((downstream_label, upstream) # rest) =
     (case upstream of
        VStream s \<Rightarrow>
          get_incoming_edge_map_loop
            (dict_set acc downstream_label (node s, label s, selector s)) rest
      | _ \<Rightarrow> Inl AttributeError)"

definition get_incoming_edge_map ::
  "(pyatom \<times> pyval) list \<Rightarrow> error + (pyatom \<times> node \<times> pyatom \<times> pyatom) list" where
  "get_incoming_edge_map stream_map = get_incoming_edge_map_loop [] stream_map"

text \<open>
  Modelled from the spec: the repr substrate \<open>KwargReprNode.__init__\<close> (ffmpeg/dag.py)
  is not part of the source at hand. It stores the edge map, the operation name and the
  parameters it is given, and gives the node a stable structural hash, a function
  \<open>R\<close> of the edge map, the name and the parameters as they are at construction;
  \<open>incoming_edge_map\<close> reads the stored map. \<open>new_node\<close> is the object after
  \<open>Node.__init__\<close> has called it and set its own four fields.
\<close>

type_synonym repr_hash =
  "(pyatom \<times> node \<times> pyatom \<times> pyatom) list \<Rightarrow> string \<Rightarrow> pyatom list
   \<Rightarrow> (string \<times> pyatom) list \<Rightarrow> int"

definition new_node ::
  "repr_hash \<Rightarrow> node_class \<Rightarrow> string \<Rightarrow> pyatom list \<Rightarrow> (string \<times> pyatom) list
   \<Rightarrow> (pyatom \<times> node \<times> pyatom \<times> pyatom) list \<Rightarrow> stream_class \<Rightarrow> stream_class list
   \<Rightarrow> int option \<Rightarrow> int option \<Rightarrow> node" where
  "new_node R c nm as kws edge_map outgoing_type incoming_types mn mx =
     MkNode c nm as kws edge_map (R edge_map nm as kws) outgoing_type incoming_types mn mx"

declare new_node_def [simp]

text \<open>\<open>Node.__init__\<close> for an object of class \<open>c\<close>.\<close>

definition Node_init ::
  "repr_hash \<Rightarrow> node_class \<Rightarrow> pyval \<Rightarrow> string \<Rightarrow> stream_class list \<Rightarrow> stream_class
   \<Rightarrow> int option \<Rightarrow> int option \<Rightarrow> pyatom list \<Rightarrow> (string \<times> pyatom) list \<Rightarrow> error + node" where
  "Node_init R c stream_spec nm incoming_types outgoing_type mn mx as kws =
     (case get_stream_map stream_spec of
        Inl e \<Rightarrow> Inl e
      | Inr stream_map \<Rightarrow>
          (case check_input_len stream_map mn mx of
             Some e \<Rightarrow> Inl e
           | None \<Rightarrow>
               (case check_input_types stream_map incoming_types of
                  Some e \<Rightarrow> Inl e
                | None \<Rightarrow>
                    (case get_incoming_edge_map stream_map of
                       Inl e \<Rightarrow> Inl e
                     | Inr edge_map \<Rightarrow>
                         Inr (new_node R c nm as kws edge_map outgoing_type incoming_types
                                mn mx)))))"

text \<open>The six node variants.\<close>

definition InputNode_init ::
  "repr_hash \<Rightarrow> string \<Rightarrow> pyatom list \<Rightarrow> (string \<times> pyatom) list \<Rightarrow> error + node" where
  "InputNode_init R nm as kws =
     Node_init R InputNode VNone nm [] FilterableStream (Some 0) (Some 0) as kws"

definition FilterNode_init ::
  "repr_hash \<Rightarrow> pyval \<Rightarrow> string \<Rightarrow> int option \<Rightarrow> pyatom list \<Rightarrow> (string \<times> pyatom) list
   \<Rightarrow> error + node" where
  "FilterNode_init R stream_spec nm mx as kws =
     Node_init R FilterNode stream_spec nm [FilterableStream] FilterableStream (Some 1) mx as kws"

definition SourceNode_init ::
  "repr_hash \<Rightarrow> string \<Rightarrow> pyatom list \<Rightarrow> (string \<times> pyatom) list \<Rightarrow> error + node" where
  "SourceNode_init R nm as kws =
     Node_init R SourceNode VNone nm [] FilterableStream (Some 0) (Some 0) as kws"

definition OutputNode_init ::
  "repr_hash \<Rightarrow> pyval \<Rightarrow> string \<Rightarrow> pyatom list \<Rightarrow> (string \<times> pyatom) list \<Rightarrow> error + node" where
  "OutputNode_init R strm nm as kws =
     Node_init R OutputNode strm nm [FilterableStream] OutputStream (Some 0) None as kws"

definition MergeOutputsNode_init :: "repr_hash \<Rightarrow> pyval \<Rightarrow> string \<Rightarrow> error + node" where
  "MergeOutputsNode_init R streams nm =
     Node_init R MergeOutputsNode streams nm [OutputStream] OutputStream (Some 1) None [] []"

definition GlobalNode_init ::
  "repr_hash \<Rightarrow> pyval \<Rightarrow> string \<Rightarrow> pyatom list \<Rightarrow> (string \<times> pyatom) list \<Rightarrow> error + node" where
  "GlobalNode_init R strm nm as kws =
     Node_init R GlobalNode strm nm [OutputStream] OutputStream (Some 1) (Some 1) as kws"

text \<open>
  The node with its stored edge map replaced: the dict object is mutated in place, and
  every other field of the node object, its hash among them, stays as it is.
\<close>

definition set_incoming_edge_map ::
  "node \<Rightarrow> (pyatom \<times> node \<times> pyatom \<times> pyatom) list \<Rightarrow> node" where
  "set_incoming_edge_map n m =
     MkNode (node_cls n) (name n) (args n) (kwargs n) m (node_hash n) (outgoing_stream_type n)
       (incoming_stream_types n) (min_inputs n) (max_inputs n)"

text \<open>
  \<open>Node._add_streams\<close>, with the node passed through: the result is the exception raised,
  if any, and the node as the call leaves it. The two mutating statements, \<open>pop\<close> and
  \<open>update\<close>, are the last ones.
\<close>

definition add_streams :: "node \<Rightarrow> pyval \<Rightarrow> error option \<times> node" where
  "add_streams self stream_spec =
     (let prev_edges = dict_values (incoming_edge_map self) in
      case get_stream_map stream_spec of
        Inl e \<Rightarrow> (Some e, self)
      | Inr new_stream_map \<Rightarrow>
          (case check_input_types new_stream_map (incoming_stream_types self) of
             Some e \<Rightarrow> (Some e, self)
           | None \<Rightarrow>
               (case get_incoming_edge_map new_stream_map of
                  Inl e \<Rightarrow> (Some e, self)
                | Inr new_inc_edge_map \<Rightarrow>
                    (let new_edges = dict_values new_inc_edge_map;
                         new_edge_map = py_enumerate (prev_edges @ new_edges)
                     in case check_input_len new_edge_map (min_inputs self) (max_inputs self) of
                          Some e \<Rightarrow> (Some e, self)
                        | None \<Rightarrow>
                            (let popped =
                                   (if PyNone \<in> set (dict_keys (incoming_edge_map self))
                                    then dict_pop (incoming_edge_map self) PyNone
                                    else incoming_edge_map self)
                             in (None,
                                 set_incoming_edge_map self
                                   (dict_update popped new_edge_map)))))))"

section \<open>Filter descriptors\<close>

text \<open>Python's \<open>str\<close> on an atom: decimal digits for an integer.\<close>

fun str_nat :: "nat \<Rightarrow> string" where
  "str_nat n = (if n < 10 then [''0123456789'' ! n]
                else str_nat (n div 10) @ [''0123456789'' ! (n mod 10)])"

declare str_nat.simps [simp del]

definition str_int :: "int \<Rightarrow> string" where
  "str_int i = (if i < 0 then CHR ''-'' # str_nat (nat (- i)) else str_nat (nat i))"

fun py_str :: "pyatom \<Rightarrow> string" where
  "py_str PyNone = ''None''"
| "py_str (PyInt i) = str_int i"
| "py_str (PyStr s) = s"

text \<open>\<open>sep.join(xs)\<close>.\<close>

fun join :: "string \<Rightarrow> string list \<Rightarrow> string" where
  "join sep [] = []"
| "join sep [x] = x"
| "join sep (x # y # ys) = x @ sep @ join sep (y # ys)"

text \<open>
  Modelled from the spec: \<open>escape_chars\<close> (ffmpeg/_utils.py) is not part of the source at
  hand. The spec's escape function: for every character of the text that is a member of
  the character set, insert a backslash immediately before it; no other transformation.
  The callers pass parameters that need not be strings; they are converted with \<open>str\<close>.
\<close>

definition escape_chars :: "string \<Rightarrow> string \<Rightarrow> string" where
  "escape_chars text chars =
     concat (map (\<lambda>ch. if ch \<in> set chars then [CHR 0x5C, ch] else [ch]) text)"

text \<open>The two character sets: backslash, quote, equals, colon; and backslash, quote, brackets, comma, semicolon.\<close>

definition param_chars :: string where
  "param_chars = [CHR 0x5C, CHR 0x27, CHR ''='', CHR '':'']"

definition graph_chars :: string where
  "graph_chars = [CHR 0x5C, CHR 0x27, CHR ''['', CHR '']'', CHR '','', CHR '';'']"

text \<open>
  \<open>FilterableNode._get_filter\<close>. The loop filling \<open>out_kwargs\<close> and the comprehension
  over \<open>sorted(out_kwargs)\<close> are definitions of their own; the rest follows the method
  statement by statement.
\<close>

definition out_kwargs_of :: "(string \<times> pyatom) list \<Rightarrow> (string \<times> string) list" where
  "out_kwargs_of kws =
     fold (\<lambda>kv acc. dict_set acc (escape_chars (fst kv) param_chars)
                       (escape_chars (py_str (snd kv)) param_chars))
       kws []"

definition kwarg_params_of :: "(string \<times> string) list \<Rightarrow> string list" where
  "kwarg_params_of out_kwargs =
     map (\<lambda>k. k @ ''='' @ the (map_of out_kwargs k)) (sort (dict_keys out_kwargs))"

definition get_filter :: "node \<Rightarrow> 'e list \<Rightarrow> string" where
  "get_filter self outgoing_edges =
     (let args0 = (if name self \<in> set [''split'', ''asplit'']
                   then [PyInt (int (length outgoing_edges))] else args self);
          out_args = map (\<lambda>x. escape_chars (py_str x) param_chars) args0;
          out_kwargs = out_kwargs_of (kwargs self);
          arg_params = map (\<lambda>v. escape_chars v param_chars) out_args;
          kwarg_params = kwarg_params_of out_kwargs;
          params = arg_params @ kwarg_params;
          params_text = escape_chars (name self) param_chars
      in escape_chars
           (if params \<noteq> [] then params_text @ ''='' @ join '':'' params else params_text)
           graph_chars)"

text \<open>The node with other positional parameters.\<close>

definition set_args :: "node \<Rightarrow> pyatom list \<Rightarrow> node" where
  "set_args n as =
     MkNode (node_cls n) (name n) as (kwargs n) (incoming_edge_map n) (node_hash n)
       (outgoing_stream_type n) (incoming_stream_types n) (min_inputs n) (max_inputs n)"

section \<open>Stream identity\<close>

text \<open>
  The hash functions the stream's identity is built from; none of them is defined in
  nodes.py. \<open>get_hash_int\<close> is the helper of ffmpeg/_utils.py, \<open>hash_atom\<close> the
  interpreter's hash of a label and \<open>hash_int\<close> the interpreter's reduction of the
  integer a \<open>__hash__\<close> method returns. The hash of a node is no function of the
  node's current fields: \<open>hash(self.node)\<close> reads the hash stored in the node object
  the stream refers to, \<open>node_hash\<close>.
\<close>

record hashing =
  get_hash_int :: "int list \<Rightarrow> int"
  hash_atom :: "pyatom \<Rightarrow> int"
  hash_int :: "int \<Rightarrow> int"

text \<open>
  The builtin \<open>hash(node)\<close>, \<open>Stream.__hash__\<close>, the builtin \<open>hash(stream)\<close> calling
  it, and \<open>Stream.__eq__\<close>.
\<close>

definition builtin_hash_node :: "hashing \<Rightarrow> node \<Rightarrow> int" where
  "builtin_hash_node H n = hash_int H (node_hash n)"

definition Stream_hash :: "hashing \<Rightarrow> stream \<Rightarrow> int" where
  "Stream_hash H self =
     get_hash_int H [builtin_hash_node H (node self), hash_atom H (label self)]"

definition builtin_hash :: "hashing \<Rightarrow> stream \<Rightarrow> int" where
  "builtin_hash H s = hash_int H (Stream_hash H s)"

definition Stream_eq :: "hashing \<Rightarrow> stream \<Rightarrow> stream \<Rightarrow> bool" where
  "Stream_eq H self other = (builtin_hash H self = builtin_hash H other)"

section \<open>Auxiliary notions and example objects\<close>

text \<open>The exceptions the spec calls ArityError: the two bound messages of \<open>__check_input_len\<close>.\<close>

fun is_arity_error :: "error \<Rightarrow> bool" where
  "is_arity_error (ValueError (At_least lo n)) = True"
| "is_arity_error (ValueError (At_most hi n)) = True"
| "is_arity_error _ = False"

text \<open>
  An edge map is positional when its only key is the unlabeled one or its keys are the
  positions \<open>0, 1, ...\<close> in order, as the constructor builds it from a single stream or
  from a sequence.
\<close>

definition positional_keys :: "(pyatom \<times> 'v) list \<Rightarrow> bool" where
  "positional_keys m =
     (dict_keys m = [PyNone] \<or> dict_keys m = map (\<lambda>i. PyInt (int i)) [0..<length m])"

text \<open>Reading an escaped text back: a backslash stands for the character after it.\<close>

fun unescape :: "string \<Rightarrow> string" where
  "unescape [] = []"
| "unescape [c] = [c]"
| "unescape (c # d # r) = (if c = CHR 0x5C then d # unescape r else c # unescape (d # r))"

text \<open>A choice of the substrate's structural hash, for the example objects.\<close>

fun atom_code :: "pyatom \<Rightarrow> int" where
  "atom_code PyNone = 0"
| "atom_code (PyInt i) = i"
| "atom_code (PyStr t) = sum_list (map of_char t)"

definition toy_repr_hash :: repr_hash where
  "toy_repr_hash edge_map nm as kws =
     1000 * int (length edge_map) + sum_list (map (\<lambda>e. node_hash (fst (snd e))) edge_map)
     + sum_list (map of_char nm) + sum_list (map atom_code as)
     + sum_list (map (\<lambda>kv. atom_code (snd kv)) kws)"

text \<open>Two input nodes and streams of theirs.\<close>

definition input_a :: node where
  "input_a = new_node toy_repr_hash InputNode ''input'' [] [(''filename'', PyStr ''a.mp4'')] []
               FilterableStream [] (Some 0) (Some 0)"

definition input_b :: node where
  "input_b = new_node toy_repr_hash InputNode ''input'' [] [(''filename'', PyStr ''b.mp4'')] []
               FilterableStream [] (Some 0) (Some 0)"

definition stream_a :: stream where
  "stream_a = \<lparr>cls = FilterableStream, node = input_a, label = PyNone, selector = PyNone\<rparr>"

definition stream_b :: stream where
  "stream_b = \<lparr>cls = FilterableStream, node = input_b, label = PyNone, selector = PyNone\<rparr>"

definition stream_a0 :: stream where
  "stream_a0 = \<lparr>cls = FilterableStream, node = input_a, label = PyInt 0, selector = PyNone\<rparr>"

text \<open>An output node over \<open>stream_a\<close>, a stream of it, and a filter node over \<open>stream_a\<close>.\<close>

definition output_x :: node where
  "output_x = new_node toy_repr_hash OutputNode ''output'' [] [(''filename'', PyStr ''x.mp4'')]
                [(PyNone, input_a, PyNone, PyNone)] OutputStream [FilterableStream]
                (Some 0) None"

definition out_stream :: stream where
  "out_stream = \<lparr>cls = OutputStream, node = output_x, label = PyNone, selector = PyNone\<rparr>"

definition filter_one :: node where
  "filter_one = new_node toy_repr_hash FilterNode ''hflip'' [] [] [(PyNone, input_a, PyNone, PyNone)]
                  FilterableStream [FilterableStream] (Some 1) (Some 1)"

text \<open>Filter nodes: a split with the explicit count 3, and nodes with special characters.\<close>

definition split3 :: node where
  "split3 = new_node toy_repr_hash FilterNode ''split'' [PyInt 3] [] [(PyNone, input_a, PyNone, PyNone)]
              FilterableStream [FilterableStream] (Some 1) (Some 1)"

definition filter_colon_arg :: node where
  "filter_colon_arg = new_node toy_repr_hash FilterNode ''f'' [PyStr ''a:b''] []
                        [(PyNone, input_a, PyNone, PyNone)]
                        FilterableStream [FilterableStream] (Some 1) (Some 1)"

definition filter_colon_kwarg :: node where
  "filter_colon_kwarg = new_node toy_repr_hash FilterNode ''f'' [] [(''x'', PyStr ''a:b'')]
                          [(PyNone, input_a, PyNone, PyNone)]
                          FilterableStream [FilterableStream] (Some 1) (Some 1)"

definition filter_eq_key :: node where
  "filter_eq_key = new_node toy_repr_hash FilterNode ''f'' [] [(''='', PyInt 1), (''A'', PyInt 2)]
                     [(PyNone, input_a, PyNone, PyNone)]
                     FilterableStream [FilterableStream] (Some 1) (Some 1)"

text \<open>
  The pieces of a descriptor: the positional parameters in effect for a fan-out, the
  escaped key a named parameter is sorted by, and a named parameter as rendered.
\<close>

definition effective_args :: "node \<Rightarrow> nat \<Rightarrow> pyatom list" where
  "effective_args self fan_out =
     (if name self \<in> set [''split'', ''asplit''] then [PyInt (int fan_out)] else args self)"

definition render_kwarg :: "string \<times> pyatom \<Rightarrow> string" where
  "render_kwarg kv =
     escape_chars (fst kv) param_chars @ ''='' @ escape_chars (py_str (snd kv)) param_chars"

definition escaped_key :: "string \<times> pyatom \<Rightarrow> string" where
  "escaped_key kv = escape_chars (fst kv) param_chars"

text \<open>The same crop filter with its named parameters inserted in two orders.\<close>

definition crop_wh :: node where
  "crop_wh = new_node toy_repr_hash FilterNode ''crop'' [PyInt 10, PyInt 20]
               [(''w'', PyInt 640), (''h'', PyInt 480)]
               [(PyNone, input_a, PyNone, PyNone)]
               FilterableStream [FilterableStream] (Some 1) (Some 1)"

definition crop_hw :: node where
  "crop_hw = new_node toy_repr_hash FilterNode ''crop'' [PyInt 10, PyInt 20]
               [(''h'', PyInt 480), (''w'', PyInt 640)]
               [(PyNone, input_a, PyNone, PyNone)]
               FilterableStream [FilterableStream] (Some 1) (Some 1)"

text \<open>A choice of hash functions.\<close>

definition toy_hashing :: hashing where
  "toy_hashing = \<lparr>get_hash_int = sum_list, hash_atom = atom_code,
                   hash_int = (\<lambda>h. h mod 2305843009213693951)\<rparr>"

text \<open>
  The output node \<open>output_x\<close> after \<open>stream_b\<close> has been attached to it, an output node
  constructed over both streams at once, and a stream of each.
\<close>

definition output_x_attached :: node where
  "output_x_attached = snd (add_streams output_x (VList [VStream stream_b]))"

definition output_ab :: node where
  "output_ab = new_node toy_repr_hash OutputNode ''output'' [] [(''filename'', PyStr ''x.mp4'')]
                 [(PyInt 0, input_a, PyNone, PyNone), (PyInt 1, input_b, PyNone, PyNone)]
                 OutputStream [FilterableStream] (Some 0) None"

definition out_stream_attached :: stream where
  "out_stream_attached =
     \<lparr>cls = OutputStream, node = output_x_attached, label = PyNone, selector = PyNone\<rparr>"

definition out_stream_ab :: stream where
  "out_stream_ab = \<lparr>cls = OutputStream, node = output_ab, label = PyNone, selector = PyNone\<rparr>"

text \<open>A filter node with at most two inputs, built from the dict \<open>{'a': stream_a}\<close>.\<close>

definition overlay_named :: node where
  "overlay_named = new_node toy_repr_hash FilterNode ''overlay'' [] []
                     [(PyStr ''a'', input_a, PyNone, PyNone)]
                     FilterableStream [FilterableStream] (Some 1) (Some 2)"

section \<open>Normalisation is partial\<close>

text \<open>
  C10: \<open>get_stream_map\<close> returns a map exactly for the four accepted shapes (absent, a
  single stream, a list or tuple, a dict); for every other value, such as a bare integer
  or a string, it ends in the undefined-variable failure, and it never raises a
  TypeError.
\<close>

theorem get_stream_map_partial:
  "((\<exists>m. get_stream_map v = Inr m) \<longleftrightarrow> accepted_shape v)
   \<and> (get_stream_map v = Inl UnboundLocalError \<longleftrightarrow> \<not> accepted_shape v)
   \<and> (\<forall>site. get_stream_map v \<noteq> Inl (TypeError site))
   \<and> get_stream_map (VInt i) = Inl UnboundLocalError
   \<and> get_stream_map (VStr t) = Inl UnboundLocalError"
  by (cases v) simp_all

section \<open>Atomicity of attaching streams\<close>

text \<open>
  C2: if \<open>_add_streams\<close> raises (a TypeError of the kind check, a ValueError of the
  arity check, or any other exception), the node afterwards is the node before the call;
  in particular its incoming edge map has the same contents and the same length.
\<close>

theorem add_streams_atomic:
  "fst (add_streams self spec) = Some e \<Longrightarrow>
     snd (add_streams self spec) = self
     \<and> incoming_edge_map (snd (add_streams self spec)) = incoming_edge_map self
     \<and> length (incoming_edge_map (snd (add_streams self spec))) = length (incoming_edge_map self)"
  by (auto simp: add_streams_def Let_def split: sum.splits option.splits)

theorem add_streams_atomic_witness:
  "fst (add_streams filter_one (VStream out_stream)) = Some (TypeError Incoming_stream)
   \<and> snd (add_streams filter_one (VStream out_stream)) = filter_one
   \<and> length (incoming_edge_map (snd (add_streams filter_one (VStream out_stream)))) = 1"
proof -
  have h: "fst (add_streams filter_one (VStream out_stream)) = Some (TypeError Incoming_stream)"
    by (simp add: add_streams_def filter_one_def out_stream_def isinstance_stream_def)
  have "length (incoming_edge_map filter_one) = 1" by (simp add: filter_one_def)
  with add_streams_atomic [OF h] h show ?thesis by simp
qed

section \<open>Component selection\<close>

lemma Node_stream_Inr:
  "Node_stream n l sel = Inr s \<Longrightarrow>
     s = \<lparr>cls = outgoing_stream_type n, node = n, label = l, selector = sel\<rparr>
     \<and> (\<forall>l' sel'. Node_stream n l' sel' =
           Inr \<lparr>cls = outgoing_stream_type n, node = n, label = l', selector = sel'\<rparr>)"
  by (cases "outgoing_stream_type n")
     (auto simp: Node_stream_def FilterableStream_init_def OutputStream_init_def
        Stream_init_def split: if_splits)

text \<open>
  C4, as stated, fails: the stream \<open>node[0]\<close> has the label 0, and selecting
  \<open>[:"audio"]\<close> on it returns a stream with no label.
\<close>

theorem Stream_getitem_label_counterexample:
  "InputNode_init toy_repr_hash ''input'' [] [(''filename'', PyStr ''a.mp4'')] = Inr input_a
   \<and> Node_getitem input_a (Index (PyInt 0)) = Inr stream_a0
   \<and> Stream_getitem stream_a0 (Slice PyNone (PyStr ''audio'') PyNone) =
       Inr \<lparr>cls = FilterableStream, node = input_a, label = PyNone,
            selector = PyStr ''audio''\<rparr>
   \<and> label stream_a0 = PyInt 0"
  by (simp add: Node_getitem_def Stream_getitem_def Node_stream_def FilterableStream_init_def
        Stream_init_def isinstance_node_def input_a_def stream_a0_def InputNode_init_def
        Node_init_def check_input_len_def get_incoming_edge_map_def)

text \<open>
  C4, amended: for every stream that its node produces, the bare selector form
  \<open>stream[:sel]\<close> succeeds and returns a stream over the same upstream node with the
  selector \<open>sel\<close> and with no upstream label, whatever the label of the original stream
  (so the label is the same only when the original has none); a plain index and a slice
  with a starting bound fail with the ValueError of invalid usage.
\<close>

theorem Stream_getitem_select:
  "(Node_stream (node s) (label s) (selector s) = Inr s \<longrightarrow>
      Stream_getitem s (Slice PyNone stop step) = Inr (s\<lparr>label := PyNone, selector := stop\<rparr>))
   \<and> Stream_getitem s (Index i) = Inl (ValueError Invalid_syntax)
   \<and> (start \<noteq> PyNone \<longrightarrow>
        Stream_getitem s (Slice start stop' step') = Inl (ValueError Invalid_syntax))"
proof (intro conjI impI)
  assume a: "Node_stream (node s) (label s) (selector s) = Inr s"
  from Node_stream_Inr [OF a]
  have c: "cls s = outgoing_stream_type (node s)"
    and r: "Node_stream (node s) PyNone stop =
      Inr \<lparr>cls = outgoing_stream_type (node s), node = node s, label = PyNone, selector = stop\<rparr>"
    by (metis stream.select_convs(1), blast)
  show "Stream_getitem s (Slice PyNone stop step) = Inr (s\<lparr>label := PyNone, selector := stop\<rparr>)"
    using c r by (simp add: Stream_getitem_def)
qed (simp_all add: Stream_getitem_def)

theorem Stream_getitem_select_witness:
  "Node_stream (node stream_a) (label stream_a) (selector stream_a) = Inr stream_a
   \<and> Stream_getitem stream_a (Slice PyNone (PyStr ''audio'') PyNone) =
       Inr \<lparr>cls = FilterableStream, node = input_a, label = PyNone,
            selector = PyStr ''audio''\<rparr>
   \<and> Stream_getitem stream_a (Index (PyStr ''audio'')) = Inl (ValueError Invalid_syntax)
   \<and> PyInt 0 \<noteq> PyNone
   \<and> Stream_getitem stream_a (Slice (PyInt 0) (PyStr ''audio'') PyNone) =
       Inl (ValueError Invalid_syntax)"
proof -
  have h: "Node_stream (node stream_a) (label stream_a) (selector stream_a) = Inr stream_a"
    by (simp add: Node_stream_def FilterableStream_init_def Stream_init_def isinstance_node_def
          input_a_def stream_a_def)
  have n: "PyInt 0 \<noteq> PyNone" by simp
  from Stream_getitem_select
         [of stream_a "PyStr ''audio''" PyNone "PyStr ''audio''" "PyInt 0" "PyStr ''audio''" PyNone]
    h n
  show ?thesis by (simp add: stream_a_def)
qed

section \<open>Arity and kind checks of the constructor\<close>

text \<open>
  C5: a FilterNode with the default bounds (at least 1, at most 1) fails with the
  ValueError of the arity check when its stream specification normalises to no stream or
  to two streams, and is built when it normalises to exactly one processable stream; in
  general \<open>Node.__init__\<close> fails with an arity error whenever the normalised map is
  shorter than a given minimum or longer than a given maximum.
\<close>

theorem Node_init_arity:
  "(get_stream_map spec0 = Inr [] \<longrightarrow>
      FilterNode_init R spec0 nm0 (Some 1) as0 kws0 = Inl (ValueError (At_least 1 0)))
   \<and> (get_stream_map spec2 = Inr sm2 \<and> length sm2 = 2 \<longrightarrow>
      FilterNode_init R spec2 nm2 (Some 1) as2 kws2 = Inl (ValueError (At_most 1 2)))
   \<and> (get_stream_map spec1 = Inr [(l, VStream s)] \<and> cls s = FilterableStream \<longrightarrow>
      FilterNode_init R spec1 nm1 (Some 1) as1 kws1 =
        Inr (new_node R FilterNode nm1 as1 kws1 [(l, node s, label s, selector s)]
               FilterableStream [FilterableStream] (Some 1) (Some 1)))
   \<and> (get_stream_map spec = Inr sm
        \<and> (mn = Some lo \<and> int (length sm) < lo \<or> mx = Some hi \<and> hi < int (length sm)) \<longrightarrow>
      (\<exists>e. Node_init R c spec nm types ost mn mx as kws = Inl e \<and> is_arity_error e))"
  by (auto simp: FilterNode_init_def Node_init_def check_input_len_def
        get_incoming_edge_map_def isinstance_stream_def)

theorem Node_init_arity_witness:
  "get_stream_map (VList []) = Inr []
   \<and> FilterNode_init toy_repr_hash (VList []) ''hflip'' (Some 1) [] [] = Inl (ValueError (At_least 1 0))
   \<and> get_stream_map (VList [VStream stream_a, VStream stream_b]) =
       Inr [(PyInt 0, VStream stream_a), (PyInt 1, VStream stream_b)]
   \<and> FilterNode_init toy_repr_hash (VList [VStream stream_a, VStream stream_b]) ''hflip'' (Some 1) [] [] =
       Inl (ValueError (At_most 1 2))
   \<and> get_stream_map (VStream stream_a) = Inr [(PyNone, VStream stream_a)]
   \<and> cls stream_a = FilterableStream
   \<and> FilterNode_init toy_repr_hash (VStream stream_a) ''hflip'' (Some 1) [] [] = Inr filter_one
   \<and> get_stream_map VNone = Inr []
   \<and> (\<exists>e. Node_init toy_repr_hash GlobalNode VNone ''global'' [OutputStream] OutputStream (Some 1) (Some 1)
             [] [] = Inl e \<and> is_arity_error e)"
proof -
  have h0: "get_stream_map (VList []) = Inr []" by (simp add: py_enumerate_def)
  have h2: "get_stream_map (VList [VStream stream_a, VStream stream_b]) =
       Inr [(PyInt 0, VStream stream_a), (PyInt 1, VStream stream_b)]"
    by (simp add: py_enumerate_def)
  have h1: "get_stream_map (VStream stream_a) = Inr [(PyNone, VStream stream_a)]" by simp
  have c1: "cls stream_a = FilterableStream" by (simp add: stream_a_def)
  have hg: "get_stream_map VNone = Inr []" by simp
  have f1: "new_node toy_repr_hash FilterNode ''hflip'' [] [] [(PyNone, node stream_a,
      label stream_a, selector stream_a)] FilterableStream [FilterableStream] (Some 1) (Some 1)
      = filter_one"
    by (simp add: filter_one_def stream_a_def)
  from Node_init_arity
         [where R = toy_repr_hash
            and ?spec0.0 = "VList []" and ?nm0.0 = "''hflip''" and ?as0.0 = "[]"
            and ?kws0.0 = "[]"
            and ?spec2.0 = "VList [VStream stream_a, VStream stream_b]"
            and ?sm2.0 = "[(PyInt 0, VStream stream_a), (PyInt 1, VStream stream_b)]"
            and ?nm2.0 = "''hflip''" and ?as2.0 = "[]" and ?kws2.0 = "[]"
            and ?spec1.0 = "VStream stream_a" and l = PyNone and s = stream_a
            and ?nm1.0 = "''hflip''" and ?as1.0 = "[]" and ?kws1.0 = "[]"
            and spec = VNone and sm = "[]" and mn = "Some 1" and lo = 1 and mx = "Some 1"
            and hi = 1 and c = GlobalNode and nm = "''global''" and types = "[OutputStream]"
            and ost = OutputStream and as = "[]" and kws = "[]"]
    h0 h2 h1 c1 hg
  have "FilterNode_init toy_repr_hash (VList []) ''hflip'' (Some 1) [] [] =
          Inl (ValueError (At_least 1 0))
      \<and> FilterNode_init toy_repr_hash (VList [VStream stream_a, VStream stream_b]) ''hflip''
          (Some 1) [] [] = Inl (ValueError (At_most 1 2))
      \<and> FilterNode_init toy_repr_hash (VStream stream_a) ''hflip'' (Some 1) [] [] =
          Inr (new_node toy_repr_hash FilterNode ''hflip'' [] [] [(PyNone, node stream_a,
            label stream_a, selector stream_a)] FilterableStream [FilterableStream] (Some 1)
            (Some 1))
      \<and> (\<exists>e. Node_init toy_repr_hash GlobalNode VNone ''global'' [OutputStream] OutputStream
            (Some 1) (Some 1) [] [] = Inl e \<and> is_arity_error e)"
    by (simp del: new_node_def)
  then show ?thesis using h0 h2 h1 c1 hg f1 by (simp del: new_node_def)
qed

lemma check_input_types_fail:
  "(k, v) \<in> set sm \<Longrightarrow> \<not> is_of_types isinstance_stream v types \<Longrightarrow>
     check_input_types sm types = Some (TypeError Incoming_stream)"
  by (induction sm types rule: check_input_types.induct) auto

lemma Node_init_type_error:
  assumes "get_stream_map spec = Inr sm" "check_input_len sm mn mx = None"
    "(k, v) \<in> set sm" "\<not> is_of_types isinstance_stream v types"
  shows "Node_init R c spec nm types ost mn mx as kws = Inl (TypeError Incoming_stream)"
  using assms(1,2) check_input_types_fail [OF assms(3,4)]
  by (simp add: Node_init_def)

text \<open>
  C6, as stated, fails: the arity check runs before the kind check, so a FilterNode
  given two output streams fails with the ValueError of the arity check, not with a
  TypeError, although neither value is of an allowed kind.
\<close>

theorem Node_init_kind_counterexample:
  "Node_stream output_x PyNone PyNone = Inr out_stream
   \<and> \<not> is_of_types isinstance_stream (VStream out_stream) [FilterableStream]
   \<and> FilterNode_init toy_repr_hash (VList [VStream out_stream, VStream out_stream]) ''hflip'' (Some 1) [] [] =
       Inl (ValueError (At_most 1 2))"
  by (simp add: FilterNode_init_def Node_init_def check_input_len_def py_enumerate_def
        isinstance_stream_def out_stream_def Node_stream_def OutputStream_init_def
        Stream_init_def isinstance_node_def output_x_def)

text \<open>
  C6, amended: for every node construction whose normalised stream map passes the
  arity check, a value of the map whose kind is not in the node's allowed incoming kinds
  makes the construction fail with TypeError; in particular an Output node, whose
  arity check always passes, fails with TypeError on any value that is not a
  processable stream, such as a stream produced by another Output node.
\<close>

theorem Node_init_kind:
  "(get_stream_map spec = Inr sm \<and> check_input_len sm mn mx = None \<and> (k, v) \<in> set sm
      \<and> \<not> is_of_types isinstance_stream v types \<longrightarrow>
      Node_init R c spec nm types ost mn mx as kws = Inl (TypeError Incoming_stream))
   \<and> (get_stream_map spec' = Inr sm' \<and> (k', v') \<in> set sm'
      \<and> \<not> isinstance_stream v' FilterableStream \<longrightarrow>
      OutputNode_init R spec' nm' as' kws' = Inl (TypeError Incoming_stream))
   \<and> (node_cls out = OutputNode \<and> Node_stream out l sel = Inr s \<longrightarrow>
      OutputNode_init R (VStream s) nm'' as'' kws'' = Inl (TypeError Incoming_stream))"
proof (intro conjI impI)
  assume "get_stream_map spec = Inr sm \<and> check_input_len sm mn mx = None \<and> (k, v) \<in> set sm
    \<and> \<not> is_of_types isinstance_stream v types"
  then show "Node_init R c spec nm types ost mn mx as kws = Inl (TypeError Incoming_stream)"
    using Node_init_type_error by blast
next
  assume a: "get_stream_map spec' = Inr sm' \<and> (k', v') \<in> set sm'
    \<and> \<not> isinstance_stream v' FilterableStream"
  have "check_input_len sm' (Some 0) None = None" by (simp add: check_input_len_def)
  with a show "OutputNode_init R spec' nm' as' kws' = Inl (TypeError Incoming_stream)"
    unfolding OutputNode_init_def
    by (intro Node_init_type_error [where sm = sm' and k = k' and v = v']) simp_all
next
  assume a: "node_cls out = OutputNode \<and> Node_stream out l sel = Inr s"
  then have "cls s = OutputStream"
    by (cases "outgoing_stream_type out")
      (auto simp: Node_stream_def FilterableStream_init_def OutputStream_init_def
        Stream_init_def isinstance_node_def split: if_splits)
  then have n: "\<not> is_of_types isinstance_stream (VStream s) [FilterableStream]"
    by (simp add: isinstance_stream_def)
  have "check_input_len [(PyNone, VStream s)] (Some 0) None = None"
    by (simp add: check_input_len_def)
  then show "OutputNode_init R (VStream s) nm'' as'' kws'' = Inl (TypeError Incoming_stream)"
    unfolding OutputNode_init_def using n
    by (intro Node_init_type_error
          [where sm = "[(PyNone, VStream s)]" and k = PyNone and v = "VStream s"]) simp_all
qed

theorem Node_init_kind_witness:
  "get_stream_map (VList [VStream out_stream]) = Inr [(PyInt 0, VStream out_stream)]
   \<and> check_input_len [(PyInt 0, VStream out_stream)] (Some 1) (Some 1) = None
   \<and> (PyInt 0, VStream out_stream) \<in> set [(PyInt 0, VStream out_stream)]
   \<and> \<not> is_of_types isinstance_stream (VStream out_stream) [FilterableStream]
   \<and> Node_init toy_repr_hash FilterNode (VList [VStream out_stream]) ''hflip'' [FilterableStream]
       FilterableStream (Some 1) (Some 1) [] [] = Inl (TypeError Incoming_stream)
   \<and> get_stream_map (VStream out_stream) = Inr [(PyNone, VStream out_stream)]
   \<and> (PyNone, VStream out_stream) \<in> set [(PyNone, VStream out_stream)]
   \<and> \<not> isinstance_stream (VStream out_stream) FilterableStream
   \<and> OutputNode_init toy_repr_hash (VStream out_stream) ''output'' [] [] = Inl (TypeError Incoming_stream)
   \<and> node_cls output_x = OutputNode
   \<and> Node_stream output_x PyNone PyNone = Inr out_stream"
proof -
  have h1: "get_stream_map (VList [VStream out_stream]) = Inr [(PyInt 0, VStream out_stream)]"
    by (simp add: py_enumerate_def)
  have h2: "check_input_len [(PyInt 0, VStream out_stream)] (Some 1) (Some 1) = None"
    by (simp add: check_input_len_def)
  have h3: "\<not> is_of_types isinstance_stream (VStream out_stream) [FilterableStream]"
    by (simp add: isinstance_stream_def out_stream_def)
  have h4: "get_stream_map (VStream out_stream) = Inr [(PyNone, VStream out_stream)]" by simp
  have h5: "\<not> isinstance_stream (VStream out_stream) FilterableStream"
    by (simp add: isinstance_stream_def out_stream_def)
  have h6: "node_cls output_x = OutputNode" by (simp add: output_x_def)
  have h7: "Node_stream output_x PyNone PyNone = Inr out_stream"
    by (simp add: Node_stream_def OutputStream_init_def Stream_init_def isinstance_node_def
          output_x_def out_stream_def)
  from Node_init_kind
         [where R = toy_repr_hash
            and spec = "VList [VStream out_stream]" and sm = "[(PyInt 0, VStream out_stream)]"
            and mn = "Some 1" and mx = "Some 1" and k = "PyInt 0" and v = "VStream out_stream"
            and types = "[FilterableStream]" and c = FilterNode and nm = "''hflip''"
            and ost = FilterableStream and as = "[]" and kws = "[]"
            and spec' = "VStream out_stream" and sm' = "[(PyNone, VStream out_stream)]"
            and k' = PyNone and v' = "VStream out_stream"
            and nm' = "''output''" and as' = "[]" and kws' = "[]"
            and out = output_x and l = PyNone and sel = PyNone and s = out_stream
            and nm'' = "''output''" and as'' = "[]" and kws'' = "[]"]
    h1 h2 h3 h4 h5 h6 h7
  show ?thesis by simp
qed

section \<open>Stream identity\<close>

lemma add_streams_node_hash: "node_hash (snd (add_streams n spec)) = node_hash n"
  by (auto simp: add_streams_def Let_def set_incoming_edge_map_def
        split: sum.splits option.splits)

text \<open>
  C9: two streams are equal exactly when their hashes are equal; the hash of a stream
  combines the hash of its upstream node object and the hash of its label and does not
  depend on the selector; so two streams over the same node and label are equal
  whatever their selectors, also when one was taken before and the other after streams
  were attached to that node.
\<close>

theorem Stream_eq_iff_hash:
  "(Stream_eq H s t \<longleftrightarrow> builtin_hash H s = builtin_hash H t)
   \<and> builtin_hash H s =
       hash_int H (get_hash_int H [hash_int H (node_hash (node s)), hash_atom H (label s)])
   \<and> builtin_hash H (s\<lparr>selector := sel\<rparr>) = builtin_hash H s
   \<and> (node s = node t \<and> label s = label t \<longrightarrow> Stream_eq H s t)
   \<and> (node_hash (node s1) = node_hash (node t1) \<and> label s1 = label t1 \<longrightarrow> Stream_eq H s1 t1)
   \<and> (node t2 = snd (add_streams (node s2) spec) \<and> label t2 = label s2 \<longrightarrow>
        Stream_eq H s2 t2)"
  by (simp add: Stream_eq_def builtin_hash_def Stream_hash_def builtin_hash_node_def
        add_streams_node_hash)

theorem Stream_eq_iff_hash_witness:
  "node stream_a = node (stream_a\<lparr>selector := PyStr ''audio''\<rparr>)
   \<and> label stream_a = label (stream_a\<lparr>selector := PyStr ''audio''\<rparr>)
   \<and> selector stream_a \<noteq> selector (stream_a\<lparr>selector := PyStr ''audio''\<rparr>)
   \<and> Stream_eq toy_hashing stream_a (stream_a\<lparr>selector := PyStr ''audio''\<rparr>)
   \<and> node_hash (node stream_a) = node_hash (node stream_a0)
   \<and> label stream_a = label (stream_a0\<lparr>label := PyNone\<rparr>)
   \<and> Stream_eq toy_hashing stream_a (stream_a0\<lparr>label := PyNone\<rparr>)
   \<and> node out_stream_attached = snd (add_streams (node out_stream) (VList [VStream stream_b]))
   \<and> label out_stream_attached = label out_stream
   \<and> incoming_edge_map (node out_stream) = [(PyNone, input_a, PyNone, PyNone)]
   \<and> incoming_edge_map (node out_stream_attached) =
       [(PyInt 0, input_a, PyNone, PyNone), (PyInt 1, input_b, PyNone, PyNone)]
   \<and> Stream_eq toy_hashing out_stream out_stream_attached"
proof -
  have h1: "node stream_a = node (stream_a\<lparr>selector := PyStr ''audio''\<rparr>)
      \<and> label stream_a = label (stream_a\<lparr>selector := PyStr ''audio''\<rparr>)"
    by simp
  have h2: "node_hash (node stream_a) = node_hash (node (stream_a0\<lparr>label := PyNone\<rparr>))
      \<and> label stream_a = label (stream_a0\<lparr>label := PyNone\<rparr>)"
    by (simp add: stream_a_def stream_a0_def)
  have h3: "node out_stream_attached =
        snd (add_streams (node out_stream) (VList [VStream stream_b]))
      \<and> label out_stream_attached = label out_stream"
    by (simp add: out_stream_attached_def out_stream_def output_x_attached_def)
  have e1: "incoming_edge_map (node out_stream) = [(PyNone, input_a, PyNone, PyNone)]"
    by (simp add: out_stream_def output_x_def)
  have e2: "incoming_edge_map (node out_stream_attached) =
       [(PyInt 0, input_a, PyNone, PyNone), (PyInt 1, input_b, PyNone, PyNone)]"
    by (simp add: out_stream_attached_def output_x_attached_def add_streams_def output_x_def
          stream_b_def py_enumerate_def isinstance_stream_def get_incoming_edge_map_def
          dict_values_def dict_keys_def dict_pop_def check_input_len_def dict_update_def
          set_incoming_edge_map_def)
  from Stream_eq_iff_hash
         [where H = toy_hashing and s = stream_a
            and t = "stream_a\<lparr>selector := PyStr ''audio''\<rparr>"
            and ?s1.0 = stream_a and ?t1.0 = "stream_a0\<lparr>label := PyNone\<rparr>"
            and ?s2.0 = out_stream and ?t2.0 = out_stream_attached
            and spec = "VList [VStream stream_b]"]
    h1 h2 h3
  have "Stream_eq toy_hashing stream_a (stream_a\<lparr>selector := PyStr ''audio''\<rparr>)
      \<and> Stream_eq toy_hashing stream_a (stream_a0\<lparr>label := PyNone\<rparr>)
      \<and> Stream_eq toy_hashing out_stream out_stream_attached"
    by blast
  then show ?thesis using h1 h2 h3 e1 e2 by (simp add: stream_a_def)
qed

text \<open>
  The hash belongs to the node object: the node that streams were attached to and a
  node constructed over the same streams at once store the same edge map, but not the
  same hash, and their streams are not equal.
\<close>

lemma Stream_eq_attached_and_rebuilt:
  "OutputNode_init toy_repr_hash (VList [VStream stream_a, VStream stream_b]) ''output'' []
       [(''filename'', PyStr ''x.mp4'')] = Inr output_ab
   \<and> incoming_edge_map output_x_attached = incoming_edge_map output_ab
   \<and> node_hash output_x_attached \<noteq> node_hash output_ab
   \<and> \<not> Stream_eq toy_hashing out_stream_attached out_stream_ab"
  by code_simp

section \<open>Escaping\<close>

lemma escape_chars_Nil: "escape_chars [] cs = []"
  by (simp add: escape_chars_def)

lemma escape_chars_Cons:
  "escape_chars (c # t) cs =
     (if c \<in> set cs then CHR 0x5C # c # escape_chars t cs else c # escape_chars t cs)"
  by (simp add: escape_chars_def)

lemma escape_chars_append: "escape_chars (a @ b) cs = escape_chars a cs @ escape_chars b cs"
  by (simp add: escape_chars_def)

lemma escape_chars_id: "set t \<inter> set cs = {} \<Longrightarrow> escape_chars t cs = t"
  by (induction t) (auto simp: escape_chars_Nil escape_chars_Cons)

lemma unescape_escape:
  "CHR 0x5C \<in> set cs \<Longrightarrow> unescape (escape_chars t cs) = t"
proof (induction t)
  case Nil
  then show ?case by (simp add: escape_chars_Nil)
next
  case (Cons c t)
  show ?case
  proof (cases "c \<in> set cs")
    case True
    then show ?thesis using Cons by (simp add: escape_chars_Cons)
  next
    case False
    then have ne: "c \<noteq> CHR 0x5C" using Cons.prems by auto
    show ?thesis
    proof (cases "escape_chars t cs")
      case Nil
      then show ?thesis using False Cons by (simp add: escape_chars_Cons)
    next
      case (Cons d r)
      then show ?thesis using False ne Cons.IH Cons.prems by (simp add: escape_chars_Cons)
    qed
  qed
qed

lemma escape_param_inj: "escape_chars a param_chars = escape_chars b param_chars \<Longrightarrow> a = b"
  by (metis unescape_escape [of param_chars] param_chars_def list.set_intros(1))

lemma str_nat_digits: "set (str_nat n) \<subseteq> set ''0123456789''"
proof (induction n rule: str_nat.induct)
  case (1 n)
  have d: "''0123456789'' ! k \<in> set ''0123456789''" if "k < 10" for k
    using that by (intro nth_mem) simp
  show ?case
  proof (cases "n < 10")
    case True
    then show ?thesis using d [of n] by (subst str_nat.simps) simp
  next
    case False
    have "n mod 10 < 10" by simp
    then show ?thesis using False 1 d [of "n mod 10"] by (subst str_nat.simps) simp
  qed
qed

lemma escape_str_nat_param: "escape_chars (str_nat n) param_chars = str_nat n"
proof (rule escape_chars_id)
  have "set ''0123456789'' \<inter> set param_chars = {}" by (simp add: param_chars_def)
  then show "set (str_nat n) \<inter> set param_chars = {}" using str_nat_digits [of n] by blast
qed

lemma escape_str_nat_graph: "escape_chars (str_nat n) graph_chars = str_nat n"
proof (rule escape_chars_id)
  have "set ''0123456789'' \<inter> set graph_chars = {}" by (simp add: graph_chars_def)
  then show "set (str_nat n) \<inter> set graph_chars = {}" using str_nat_digits [of n] by blast
qed

lemma split_names_plain:
  "nm = ''split'' \<or> nm = ''asplit'' \<Longrightarrow>
     escape_chars nm param_chars = nm \<and> escape_chars (nm @ ''='') graph_chars = nm @ ''=''"
  by (auto simp: escape_chars_def param_chars_def graph_chars_def)

section \<open>Fan-out operations\<close>

text \<open>
  C7: for a filter node named \<open>split\<close> or \<open>asplit\<close>, the descriptor is the one of the
  same node with its positional parameters replaced by the single number of outgoing
  edges: the supplied positional parameters do not occur in it. Without named parameters
  it is the name, an equals sign and that number; a split node built with the count 3
  and used with 2 outgoing edges renders as \<open>split=2\<close>.
\<close>

theorem get_filter_fan_out:
  assumes "name self = ''split'' \<or> name self = ''asplit''"
  shows "get_filter self es = get_filter (set_args self [PyInt (int (length es))]) es
    \<and> get_filter self es =
        escape_chars (name self @ ''='' @
          join '':'' (str_nat (length es) # kwarg_params_of (out_kwargs_of (kwargs self))))
          graph_chars
    \<and> (kwargs self = [] \<longrightarrow> get_filter self es = name self @ ''='' @ str_nat (length es))"
proof (intro conjI impI)
  have n: "name self \<in> set [''split'', ''asplit'']" using assms by auto
  show "get_filter self es = get_filter (set_args self [PyInt (int (length es))]) es"
    using n by (simp add: get_filter_def set_args_def Let_def)
  show f: "get_filter self es =
        escape_chars (name self @ ''='' @
          join '':'' (str_nat (length es) # kwarg_params_of (out_kwargs_of (kwargs self))))
          graph_chars"
    using n split_names_plain [OF assms]
    by (simp add: get_filter_def Let_def str_int_def escape_str_nat_param)
  assume "kwargs self = []"
  then have "get_filter self es =
      escape_chars ((name self @ ''='') @ str_nat (length es)) graph_chars"
    using f by (simp add: out_kwargs_of_def kwarg_params_of_def dict_keys_def)
  then show "get_filter self es = name self @ ''='' @ str_nat (length es)"
    using split_names_plain [OF assms]
    by (simp only: escape_chars_append escape_str_nat_graph) simp
qed

theorem get_filter_fan_out_witness:
  "(name split3 = ''split'' \<or> name split3 = ''asplit'')
   \<and> args split3 = [PyInt 3]
   \<and> get_filter split3 [(), ()] = ''split=2''"
proof -
  have n: "name split3 = ''split'' \<or> name split3 = ''asplit''" by (simp add: split3_def)
  have k: "kwargs split3 = []" by (simp add: split3_def)
  from get_filter_fan_out [OF n, of "[(), ()]"] k
  have "get_filter split3 [(), ()] = name split3 @ ''='' @ str_nat (length [(), ()])" by blast
  moreover have "str_nat (length [(), ()]) = ''2''" by (simp add: str_nat.simps)
  ultimately show ?thesis using n by (simp add: split3_def)
qed

section \<open>Merging attached streams\<close>

lemma dict_set_fresh: "k \<notin> fst ` set m \<Longrightarrow> dict_set m k v = m @ [(k, v)]"
  by (induction m) auto

lemma dict_update_append:
  "distinct (map fst (m @ r)) \<Longrightarrow> dict_update m r = m @ r"
proof (induction r arbitrary: m)
  case Nil
  then show ?case by (simp add: dict_update_def)
next
  case (Cons kv r)
  have fresh: "fst kv \<notin> fst ` set m" using Cons.prems by auto
  have "distinct (map fst ((m @ [kv]) @ r))" using Cons.prems by auto
  from Cons.IH [OF this] show ?case
    using dict_set_fresh [OF fresh, of "snd kv"] by (simp add: dict_update_def)
qed

lemma dict_update_Cons_other:
  "k \<notin> fst ` set p \<Longrightarrow> dict_update ((k, v) # m) p = (k, v) # dict_update m p"
  by (induction p arbitrary: m) (auto simp: dict_update_def)

lemma dict_update_overwrite:
  "map fst m = map fst p \<Longrightarrow> distinct (map fst p) \<Longrightarrow> dict_update m p = p"
proof (induction p arbitrary: m)
  case Nil
  then show ?case by (simp add: dict_update_def)
next
  case (Cons kv p)
  then obtain v0 m' where m: "m = (fst kv, v0) # m'" and keys: "map fst m' = map fst p"
    by (cases m) auto
  have fresh: "fst kv \<notin> fst ` set p" using Cons.prems(2) by auto
  have "dict_update m (kv # p) = dict_update ((fst kv, snd kv) # m') p"
    by (simp add: m dict_update_def)
  also have "\<dots> = (fst kv, snd kv) # dict_update m' p"
    by (rule dict_update_Cons_other [OF fresh])
  also have "dict_update m' p = p"
    using Cons.IH [OF keys] Cons.prems(2) by simp
  finally show ?case by simp
qed

lemma dict_update_split: "dict_update m (p @ r) = dict_update (dict_update m p) r"
  by (simp add: dict_update_def)

lemma dict_update_prefix:
  assumes "map fst m = map fst p" "distinct (map fst (p @ r))"
  shows "dict_update m (p @ r) = p @ r"
proof -
  have "distinct (map fst p)" using assms(2) by simp
  with assms(1) have "dict_update m p = p" by (rule dict_update_overwrite)
  then show ?thesis using dict_update_append [OF assms(2)] by (simp add: dict_update_split)
qed

lemma keys_py_enumerate: "map fst (py_enumerate xs) = map (\<lambda>i. PyInt (int i)) [0..<length xs]"
proof -
  have "map fst (py_enumerate xs) = map (\<lambda>i. PyInt (int i)) (map fst (enumerate 0 xs))"
    unfolding py_enumerate_def map_map by (rule map_cong) simp_all
  then show ?thesis by simp
qed

lemma values_py_enumerate: "map snd (py_enumerate xs) = xs"
proof -
  have "map snd (py_enumerate xs) = map snd (enumerate 0 xs)"
    by (simp add: py_enumerate_def comp_def)
  then show ?thesis by simp
qed

lemma distinct_keys_py_enumerate: "distinct (map fst (py_enumerate xs))"
  by (simp add: keys_py_enumerate distinct_map inj_on_def)

lemma py_enumerate_append:
  "py_enumerate (xs @ ys) =
     py_enumerate xs @ map (\<lambda>iv. (PyInt (int (fst iv)), snd iv)) (enumerate (length xs) ys)"
  by (simp add: py_enumerate_def enumerate_append_eq)

lemma merge_positional:
  assumes "positional_keys old"
  shows "dict_update (if PyNone \<in> set (dict_keys old) then dict_pop old PyNone else old)
           (py_enumerate (dict_values old @ new)) = py_enumerate (dict_values old @ new)"
proof -
  let ?m2 = "py_enumerate (dict_values old @ new)"
  have d: "distinct (map fst ?m2)" by (rule distinct_keys_py_enumerate)
  from assms consider (unl) "dict_keys old = [PyNone]"
    | (pos) "dict_keys old = map (\<lambda>i. PyInt (int i)) [0..<length old]"
    by (auto simp: positional_keys_def)
  then show ?thesis
  proof cases
    case unl
    then obtain e where "old = [(PyNone, e)]" by (cases old) (auto simp: dict_keys_def)
    then have "(if PyNone \<in> set (dict_keys old) then dict_pop old PyNone else old) = []"
      by (simp add: dict_keys_def dict_pop_def)
    then show ?thesis using dict_update_append [of "[]" ?m2] d by simp
  next
    case pos
    then have nn: "PyNone \<notin> set (dict_keys old)" by auto
    obtain r where split: "?m2 = py_enumerate (dict_values old) @ r"
      using py_enumerate_append by blast
    have k: "map fst old = map fst (py_enumerate (dict_values old))"
      using pos by (simp add: keys_py_enumerate dict_keys_def dict_values_def)
    have "distinct (map fst (py_enumerate (dict_values old) @ r))"
      using d split by simp
    with k have "dict_update old (py_enumerate (dict_values old) @ r)
          = py_enumerate (dict_values old) @ r"
      by (rule dict_update_prefix)
    then show ?thesis using nn split by simp
  qed
qed


lemma checked_map_has_edges_loop:
  "check_input_types sm types = None \<Longrightarrow> \<exists>em. get_incoming_edge_map_loop acc sm = Inr em"
proof (induction sm arbitrary: acc)
  case Nil
  then show ?case by simp
next
  case (Cons kv sm)
  obtain k v where kv: "kv = (k, v)" by (cases kv)
  from Cons.prems kv have t: "is_of_types isinstance_stream v types"
    and rest: "check_input_types sm types = None"
    by (auto split: if_splits)
  have "\<exists>s. v = VStream s" using t
    by (induction types) (auto simp: isinstance_stream_def split: pyval.splits if_splits)
  then show ?case using Cons.IH [OF rest] kv by auto
qed

lemma checked_map_has_edges:
  "check_input_types sm types = None \<Longrightarrow> \<exists>em. get_incoming_edge_map sm = Inr em"
  unfolding get_incoming_edge_map_def by (rule checked_map_has_edges_loop)

text \<open>
  C1: the claim says that the merged map holds the existing entries followed by the new
  ones, no edge twice. On a node whose edge map has a caller-chosen label the code does
  not do so: it removes only the unlabeled key before \<open>update\<close>, although its comments
  read "Rename all edges" and "Overwrite old map". The filter node built from the dict
  \<open>{'a': stream_a}\<close> with at most two inputs stores three entries after \<open>stream_b\<close> is
  attached, the edge of \<open>a\<close> both under \<open>a\<close> and at position 0. The call raises nothing,
  because the arity check sees the renumbered map of two entries; the map it stores
  violates the bound.
\<close>

theorem add_streams_named_label_duplicates:
  "FilterNode_init toy_repr_hash (VDict [(PyStr ''a'', VStream stream_a)]) ''overlay'' (Some 2)
       [] [] = Inr overlay_named
   \<and> incoming_edge_map overlay_named = [(PyStr ''a'', input_a, PyNone, PyNone)]
   \<and> fst (add_streams overlay_named (VList [VStream stream_b])) = None
   \<and> incoming_edge_map (snd (add_streams overlay_named (VList [VStream stream_b]))) =
       [(PyStr ''a'', input_a, PyNone, PyNone),
        (PyInt 0, input_a, PyNone, PyNone),
        (PyInt 1, input_b, PyNone, PyNone)]
   \<and> check_input_len
        (incoming_edge_map (snd (add_streams overlay_named (VList [VStream stream_b]))))
        (min_inputs overlay_named) (max_inputs overlay_named) =
       Some (ValueError (At_most 2 3))"
  by (simp add: add_streams_def overlay_named_def stream_a_def stream_b_def py_enumerate_def
        isinstance_stream_def get_incoming_edge_map_def dict_values_def dict_keys_def
        check_input_len_def dict_update_def set_incoming_edge_map_def input_a_def input_b_def
        FilterNode_init_def Node_init_def)

text \<open>
  On a positional edge map (its only key is the unlabeled one, or its keys are the
  positions \<open>0, 1, ...\<close> in order) the merge does what the comments say: for a stream
  specification that passes the kind check and the arity check of the merged map,
  \<open>_add_streams\<close> stores the existing edges followed by the new ones, numbered
  \<open>0, 1, ...\<close> in one contiguous sequence; a sole unlabeled entry becomes position 0
  and the merged map has no unlabeled entry.
\<close>

lemma add_streams_positional:
  assumes "positional_keys (incoming_edge_map self)"
    and "get_stream_map spec = Inr new_stream_map"
    and "check_input_types new_stream_map (incoming_stream_types self) = None"
    and "get_incoming_edge_map new_stream_map = Inr new_inc_edge_map"
    and "check_input_len
           (py_enumerate (dict_values (incoming_edge_map self) @ dict_values new_inc_edge_map))
           (min_inputs self) (max_inputs self) = None"
  shows "add_streams self spec =
           (None, set_incoming_edge_map self
                    (py_enumerate (dict_values (incoming_edge_map self)
                                   @ dict_values new_inc_edge_map)))
    \<and> dict_values (incoming_edge_map (snd (add_streams self spec))) =
         dict_values (incoming_edge_map self) @ dict_values new_inc_edge_map
    \<and> dict_keys (incoming_edge_map (snd (add_streams self spec))) =
         map (\<lambda>i. PyInt (int i))
           [0..<length (incoming_edge_map self) + length new_inc_edge_map]
    \<and> PyNone \<notin> set (dict_keys (incoming_edge_map (snd (add_streams self spec))))"
proof -
  let ?merged = "py_enumerate (dict_values (incoming_edge_map self) @ dict_values new_inc_edge_map)"
  have r: "add_streams self spec = (None, set_incoming_edge_map self ?merged)"
    using assms(2-5) merge_positional [OF assms(1), of "dict_values new_inc_edge_map"]
    by (simp add: add_streams_def Let_def)
  have m: "incoming_edge_map (snd (add_streams self spec)) = ?merged"
    by (simp add: r set_incoming_edge_map_def)
  have k: "dict_keys ?merged = map (\<lambda>i. PyInt (int i))
           [0..<length (incoming_edge_map self) + length new_inc_edge_map]"
    by (simp add: dict_keys_def keys_py_enumerate dict_values_def)
  have v: "dict_values ?merged = dict_values (incoming_edge_map self) @ dict_values new_inc_edge_map"
    using values_py_enumerate [of "dict_values (incoming_edge_map self) @ dict_values new_inc_edge_map"]
    by (simp add: dict_values_def)
  have "PyNone \<notin> set (dict_keys ?merged)" unfolding k by auto
  then show ?thesis using r m k v by simp
qed

lemma add_streams_positional_example:
  "positional_keys (incoming_edge_map output_x)
   \<and> get_stream_map (VList [VStream stream_b]) = Inr [(PyInt 0, VStream stream_b)]
   \<and> check_input_types [(PyInt 0, VStream stream_b)] (incoming_stream_types output_x) = None
   \<and> get_incoming_edge_map [(PyInt 0, VStream stream_b)] = Inr [(PyInt 0, input_b, PyNone, PyNone)]
   \<and> check_input_len
        (py_enumerate (dict_values (incoming_edge_map output_x)
                       @ dict_values [(PyInt 0, input_b, PyNone, PyNone)]))
        (min_inputs output_x) (max_inputs output_x) = None
   \<and> incoming_edge_map output_x = [(PyNone, input_a, PyNone, PyNone)]
   \<and> add_streams output_x (VList [VStream stream_b]) =
        (None, set_incoming_edge_map output_x
                 [(PyInt 0, input_a, PyNone, PyNone), (PyInt 1, input_b, PyNone, PyNone)])"
proof -
  have h1: "positional_keys (incoming_edge_map output_x)"
    by (simp add: positional_keys_def output_x_def dict_keys_def)
  have h2: "get_stream_map (VList [VStream stream_b]) = Inr [(PyInt 0, VStream stream_b)]"
    by (simp add: py_enumerate_def)
  have h3: "check_input_types [(PyInt 0, VStream stream_b)] (incoming_stream_types output_x) = None"
    by (simp add: output_x_def stream_b_def isinstance_stream_def)
  have h4: "get_incoming_edge_map [(PyInt 0, VStream stream_b)] = Inr [(PyInt 0, input_b, PyNone, PyNone)]"
    by (simp add: get_incoming_edge_map_def stream_b_def)
  have h5: "check_input_len
        (py_enumerate (dict_values (incoming_edge_map output_x)
                       @ dict_values [(PyInt 0, input_b, PyNone, PyNone)]))
        (min_inputs output_x) (max_inputs output_x) = None"
    by (simp add: check_input_len_def output_x_def)
  have e: "py_enumerate (dict_values (incoming_edge_map output_x)
                       @ dict_values [(PyInt 0, input_b, PyNone, PyNone)]) =
        [(PyInt 0, input_a, PyNone, PyNone), (PyInt 1, input_b, PyNone, PyNone)]"
    by (simp add: py_enumerate_def dict_values_def output_x_def)
  have i: "incoming_edge_map output_x = [(PyNone, input_a, PyNone, PyNone)]"
    by (simp add: output_x_def)
  from add_streams_positional [OF h1 h2 h3 h4 h5] h1 h2 h3 h4 h5 e i
  show ?thesis by simp
qed

section \<open>Layout and determinism of the descriptor\<close>

lemma fold_dict_set_fresh:
  "distinct (map fst acc @ map (\<lambda>kv. f (fst kv)) kws) \<Longrightarrow>
     fold (\<lambda>kv acc. dict_set acc (f (fst kv)) (g (snd kv))) kws acc =
       acc @ map (\<lambda>kv. (f (fst kv), g (snd kv))) kws"
proof (induction kws arbitrary: acc)
  case Nil
  then show ?case by simp
next
  case (Cons kv kws)
  have fresh: "f (fst kv) \<notin> fst ` set acc" using Cons.prems by auto
  have d: "distinct (map fst (acc @ [(f (fst kv), g (snd kv))]) @ map (\<lambda>kv. f (fst kv)) kws)"
    using Cons.prems by auto
  show ?case
    using Cons.IH [OF d] dict_set_fresh [OF fresh, of "g (snd kv)"] by simp
qed

lemma distinct_escaped_keys:
  assumes "distinct (map fst kws)"
  shows "distinct (map (\<lambda>kv. escape_chars (fst kv) param_chars) kws)"
proof -
  have inj: "inj_on (\<lambda>k. escape_chars k param_chars) (set (map fst kws))"
    by (rule inj_onI) (rule escape_param_inj)
  have "distinct (map (\<lambda>k. escape_chars k param_chars) (map fst kws))"
    by (rule iffD2 [OF distinct_map, OF conjI [OF assms inj]])
  then show ?thesis by (simp add: comp_def)
qed

lemma out_kwargs_of_distinct:
  assumes "distinct (map fst kws)"
  shows "out_kwargs_of kws =
    map (\<lambda>kv. (escape_chars (fst kv) param_chars, escape_chars (py_str (snd kv)) param_chars)) kws"
proof -
  have "distinct (map fst [] @ map (\<lambda>kv. escape_chars (fst kv) param_chars) kws)"
    using distinct_escaped_keys [OF assms] by simp
  from fold_dict_set_fresh [OF this, of "\<lambda>v. escape_chars (py_str v) param_chars"]
  show ?thesis by (simp add: out_kwargs_of_def)
qed

lemma insort_key_map:
  "insort_key f (g x) (map g xs) = map g (insort_key (\<lambda>y. f (g y)) x xs)"
  by (induction xs) auto

lemma sort_key_map: "sort_key f (map g xs) = map g (sort_key (\<lambda>y. f (g y)) xs)"
  by (induction xs) (auto simp: insort_key_map)

lemma kwarg_params_of_distinct:
  assumes "distinct (map fst m)"
  shows "kwarg_params_of m = map (\<lambda>kv. fst kv @ ''='' @ snd kv) (sort_key fst m)"
proof -
  have s: "sort (map fst m) = map fst (sort_key fst m)"
    using sort_key_map [of "\<lambda>x. x" fst m] by simp
  have "the (map_of m (fst kv)) = snd kv" if "kv \<in> set (sort_key fst m)" for kv
  proof -
    from that have "(fst kv, snd kv) \<in> set m" by simp
    then have "map_of m (fst kv) = Some (snd kv)" using assms by simp
    then show ?thesis by simp
  qed
  then show ?thesis
    by (simp add: kwarg_params_of_def dict_keys_def s)
qed

lemma kwarg_params_sorted_items:
  assumes "distinct (map fst kws)"
  shows "kwarg_params_of (out_kwargs_of kws) = map render_kwarg (sort_key escaped_key kws)"
proof -
  let ?g = "\<lambda>kv. (escape_chars (fst kv) param_chars, escape_chars (py_str (snd kv)) param_chars)"
  have o: "out_kwargs_of kws = map ?g kws" by (rule out_kwargs_of_distinct [OF assms])
  have d: "distinct (map fst (map ?g kws))"
    using distinct_escaped_keys [OF assms] by (simp add: comp_def)
  have "kwarg_params_of (map ?g kws) = map (\<lambda>kv. fst kv @ ''='' @ snd kv) (sort_key fst (map ?g kws))"
    by (rule kwarg_params_of_distinct [OF d])
  also have "sort_key fst (map ?g kws) = map ?g (sort_key (\<lambda>y. fst (?g y)) kws)"
    by (rule sort_key_map)
  finally have "kwarg_params_of (map ?g kws) =
      map (\<lambda>kv. fst kv @ ''='' @ snd kv) (map ?g (sort_key (\<lambda>y. fst (?g y)) kws))" .
  moreover have "escaped_key = (\<lambda>y. escape_chars (fst y) param_chars)"
    by (rule ext) (simp add: escaped_key_def)
  moreover have "render_kwarg = (\<lambda>kv. escape_chars (fst kv) param_chars @ ''='' @
      escape_chars (py_str (snd kv)) param_chars)"
    by (rule ext) (simp add: render_kwarg_def)
  ultimately show ?thesis by (simp add: o comp_def)
qed

lemma sort_key_escaped_perm:
  assumes "distinct (map fst kws)" "distinct (map fst kws')" "set kws' = set kws"
  shows "sort_key escaped_key kws' = sort_key escaped_key kws"
proof (rule map_sorted_distinct_set_unique [where f = escaped_key])
  have inj: "inj_on escaped_key (set kws)"
  proof (rule inj_onI)
    fix x y assume "x \<in> set kws" "y \<in> set kws" "escaped_key x = escaped_key y"
    then have "fst x = fst y" by (auto simp: escaped_key_def dest: escape_param_inj)
    moreover have "(fst x, snd x) \<in> set kws" "(fst y, snd y) \<in> set kws"
      using \<open>x \<in> set kws\<close> \<open>y \<in> set kws\<close> by simp_all
    ultimately have "snd x = snd y"
      using eq_key_imp_eq_value [OF assms(1), of "fst x" "snd x" "snd y"] by simp
    with \<open>fst x = fst y\<close> show "x = y" by (rule prod_eqI)
  qed
  then show "inj_on escaped_key (set (sort_key escaped_key kws') \<union> set (sort_key escaped_key kws))"
    using assms(3) by simp
  have dk: "distinct kws" "distinct kws'" using assms(1,2) by (simp_all add: distinct_map)
  show "distinct (map escaped_key (sort_key escaped_key kws'))"
    using inj dk assms(3) by (simp add: distinct_map)
  show "distinct (map escaped_key (sort_key escaped_key kws))"
    using inj dk by (simp add: distinct_map)
qed (simp_all add: assms(3))

text \<open>
  C8, as stated, fails: named parameters are sorted by their escaped key, not by
  their key. The key \<open>=\<close> is less than the key \<open>A\<close>, but its escaped form starts with a
  backslash and sorts after \<open>A\<close>, so the parameter \<open>A\<close> is emitted first.
\<close>

theorem get_filter_key_order_counterexample:
  "(''='' :: string) < ''A''
   \<and> kwargs filter_eq_key = [(''='', PyInt 1), (''A'', PyInt 2)]
   \<and> get_filter filter_eq_key [] =
       [CHR ''f'', CHR ''='', CHR ''A'', CHR ''='', CHR ''2'', CHR '':'',
        CHR 0x5C, CHR 0x5C, CHR ''='', CHR ''='', CHR ''1'']"
  by code_simp

text \<open>
  C8, amended: for every filter node (with distinct named-parameter keys) and fan-out,
  the descriptor is a function of the node's name, parameters and the fan-out alone
  (two nodes with the same name, the same positional parameters and the same named
  parameters inserted in any order render identically for the same fan-out); positional
  parameters are emitted in declaration order before all named parameters; named
  parameters are ordered lexicographically by their escaped key, whatever their
  insertion order; the descriptor is just the escaped operation name when there are no
  parameters and otherwise \<open>name=param1:param2:...:key=value\<close>.
\<close>

theorem get_filter_layout:
  assumes "distinct (map fst (kwargs self))"
  shows "get_filter self es =
      (let positional = map (\<lambda>x. escape_chars (escape_chars (py_str x) param_chars) param_chars)
                          (effective_args self (length es));
           named = map render_kwarg (sort_key escaped_key (kwargs self));
           params = positional @ named
       in escape_chars
            (if params = [] then escape_chars (name self) param_chars
             else escape_chars (name self) param_chars @ ''='' @ join '':'' params)
            graph_chars)
    \<and> sorted (map escaped_key (sort_key escaped_key (kwargs self)))
    \<and> (name self' = name self \<and> args self' = args self \<and> set (kwargs self') = set (kwargs self)
        \<and> distinct (map fst (kwargs self')) \<and> length es' = length es \<longrightarrow>
        get_filter self' es' = get_filter self es)"
proof (intro conjI impI)
  show "get_filter self es =
      (let positional = map (\<lambda>x. escape_chars (escape_chars (py_str x) param_chars) param_chars)
                          (effective_args self (length es));
           named = map render_kwarg (sort_key escaped_key (kwargs self));
           params = positional @ named
       in escape_chars
            (if params = [] then escape_chars (name self) param_chars
             else escape_chars (name self) param_chars @ ''='' @ join '':'' params)
            graph_chars)"
    using kwarg_params_sorted_items [OF assms]
    by (simp add: get_filter_def Let_def effective_args_def comp_def)
  show "sorted (map escaped_key (sort_key escaped_key (kwargs self)))"
    by (rule sorted_sort_key)
  assume a: "name self' = name self \<and> args self' = args self \<and> set (kwargs self') = set (kwargs self)
        \<and> distinct (map fst (kwargs self')) \<and> length es' = length es"
  then have "sort_key escaped_key (kwargs self') = sort_key escaped_key (kwargs self)"
    using assms by (intro sort_key_escaped_perm) simp_all
  then show "get_filter self' es' = get_filter self es"
    using a kwarg_params_sorted_items [OF assms] kwarg_params_sorted_items [of "kwargs self'"]
    by (simp add: get_filter_def Let_def)
qed


theorem get_filter_layout_witness:
  "distinct (map fst (kwargs crop_wh))
   \<and> name crop_hw = name crop_wh \<and> args crop_hw = args crop_wh
   \<and> set (kwargs crop_hw) = set (kwargs crop_wh)
   \<and> distinct (map fst (kwargs crop_hw))
   \<and> length ([] :: unit list) = length ([] :: unit list)
   \<and> get_filter crop_hw ([] :: unit list) = get_filter crop_wh ([] :: unit list)
   \<and> get_filter crop_wh ([] :: unit list) = ''crop=10:20:h=480:w=640''"
proof -
  have h1: "distinct (map fst (kwargs crop_wh))" by (simp add: crop_wh_def)
  have h2: "name crop_hw = name crop_wh \<and> args crop_hw = args crop_wh
      \<and> set (kwargs crop_hw) = set (kwargs crop_wh)
      \<and> distinct (map fst (kwargs crop_hw))
      \<and> length ([] :: unit list) = length ([] :: unit list)"
    by (auto simp: crop_wh_def crop_hw_def)
  from get_filter_layout [OF h1, of "[] :: unit list" crop_hw "[] :: unit list"] h2
  have e: "get_filter crop_hw ([] :: unit list) = get_filter crop_wh ([] :: unit list)"
    by blast
  have v: "get_filter crop_wh ([] :: unit list) = ''crop=10:20:h=480:w=640''"
    by code_simp
  show ?thesis using h1 h2 e v by simp
qed

section \<open>Escaping of positional parameters\<close>

text \<open>
  C3: the claim says that every value is escaped exactly once for the first character
  set. The code escapes a named-parameter value once, but a positional parameter twice
  (once into \<open>out_args\<close>, once more into \<open>arg_params\<close>): the positional parameter
  \<open>a:b\<close> is rendered with six backslashes before the colon, the named-parameter value
  \<open>a:b\<close> with two.
\<close>

theorem get_filter_positional_escaped_twice:
  "get_filter filter_colon_arg [] =
     escape_chars (''f='' @ escape_chars (escape_chars ''a:b'' param_chars) param_chars)
       graph_chars
   \<and> escape_chars (escape_chars ''a:b'' param_chars) param_chars \<noteq>
       escape_chars ''a:b'' param_chars
   \<and> get_filter filter_colon_arg [] =
       [CHR ''f'', CHR ''='', CHR ''a'', CHR 0x5C, CHR 0x5C, CHR 0x5C, CHR 0x5C, CHR 0x5C,
        CHR 0x5C, CHR '':'', CHR ''b'']
   \<and> get_filter filter_colon_kwarg [] =
       escape_chars (''f=x='' @ escape_chars ''a:b'' param_chars) graph_chars
   \<and> get_filter filter_colon_kwarg [] =
       [CHR ''f'', CHR ''='', CHR ''x'', CHR ''='', CHR ''a'', CHR 0x5C, CHR 0x5C, CHR '':'',
        CHR ''b'']"
  by code_simp

end
